theory Spec2Isabelle
  imports Complex_Main
begin

section \<open>JavaScript values\<close>

text \<open>
  The request body of the submission route, the provider's answers and the JSON the page
  receives are untyped in the source (\<^verbatim>\<open>any\<close>). They are modelled as JSON values plus
  \<^verbatim>\<open>undefined\<close>, which is what reading an absent property gives. Numbers are real
  numbers: the program only tests them for truthiness, forwards them and, in the page,
  does arithmetic whose rounding is not modelled. An object is the list of its
  properties, read with \<open>map_of\<close>.
\<close>

datatype jsval =
    JUndefined
  | JNull
  | JBool bool
  | JNum real
  | JStr string
  | JArr "jsval list"
  | JObj "(string \<times> jsval) list"

text \<open>A thrown value: an \<^verbatim>\<open>Error\<close> instance with its message, or anything else.\<close>

datatype thrown = ErrorObj string | NonError

fun truthy :: "jsval \<Rightarrow> bool" where
  "truthy JUndefined = False"
| "truthy JNull = False"
| "truthy (JBool b) = b"
| "truthy (JNum x) = (x \<noteq> 0)"
| "truthy (JStr s) = (s \<noteq> [])"
| "truthy (JArr xs) = True"
| "truthy (JObj kvs) = True"

fun nullish :: "jsval \<Rightarrow> bool" where
  "nullish JUndefined = True"
| "nullish JNull = True"
| "nullish v = False"

text \<open>\<^verbatim>\<open>a || b\<close>\<close>

definition js_or :: "jsval \<Rightarrow> jsval \<Rightarrow> jsval" where
  "js_or a b = (if truthy a then a else b)"

text \<open>
  \<^verbatim>\<open>v.k\<close> for a value that is neither \<^verbatim>\<open>null\<close> nor \<^verbatim>\<open>undefined\<close>, and for the
  property names the program reads (none of them is a property of a prototype).
\<close>

fun field :: "jsval \<Rightarrow> string \<Rightarrow> jsval" where
  "field (JObj kvs) k = (case map_of kvs k of Some v \<Rightarrow> v | None \<Rightarrow> JUndefined)"
| "field v k = JUndefined"

text \<open>\<^verbatim>\<open>v.k\<close>: reading a property of \<^verbatim>\<open>null\<close> or \<^verbatim>\<open>undefined\<close> throws a TypeError.\<close>

definition cannot_read :: "jsval \<Rightarrow> string \<Rightarrow> thrown" where
  "cannot_read v k = ErrorObj (''Cannot read properties of ''
     @ (if v = JNull then ''null'' else ''undefined'') @ '' (reading '' @ [CHR 0x27] @ k @ [CHR 0x27] @ '')'')"

definition get :: "jsval \<Rightarrow> string \<Rightarrow> thrown + jsval" where
  "get v k = (if nullish v then Inl (cannot_read v k) else Inr (field v k))"

text \<open>\<^verbatim>\<open>v?.k\<close>\<close>

definition opt_field :: "jsval \<Rightarrow> string \<Rightarrow> jsval" where
  "opt_field v k = (if nullish v then JUndefined else field v k)"

text \<open>\<^verbatim>\<open>v?.[0]\<close>\<close>

fun opt_index0 :: "jsval \<Rightarrow> jsval" where
  "opt_index0 (JArr xs) = (case xs of [] \<Rightarrow> JUndefined | x # _ \<Rightarrow> x)"
| "opt_index0 (JStr s) = (case s of [] \<Rightarrow> JUndefined | c # _ \<Rightarrow> JStr [c])"
| "opt_index0 (JObj kvs) = field (JObj kvs) ''0''"
| "opt_index0 v = JUndefined"

text \<open>\<^verbatim>\<open>s.startsWith(p)\<close> on strings.\<close>

definition starts_with :: "string \<Rightarrow> string \<Rightarrow> bool" where
  "starts_with s p = (take (length p) s = p)"

section \<open>HTTP responses and the provider\<close>

record http_response =
  http_status :: nat
  http_body :: jsval

text \<open>
  \<^verbatim>\<open>NextResponse.json(obj, { status })\<close>: the body is serialised as JSON, which leaves out
  every property whose value is \<^verbatim>\<open>undefined\<close>.
\<close>

definition json_response :: "nat \<Rightarrow> (string \<times> jsval) list \<Rightarrow> http_response" where
  "json_response st kvs =
     \<lparr>http_status = st, http_body = JObj (filter (\<lambda>kv. snd kv \<noteq> JUndefined) kvs)\<rparr>"

text \<open>The keys of a response body.\<close>

fun body_keys :: "jsval \<Rightarrow> string list" where
  "body_keys (JObj kvs) = map fst kvs"
| "body_keys v = []"

record gen_params =
  image_url :: jsval
  prompt :: jsval
  quality :: jsval
  duration :: jsval
  fps :: jsval
  size :: jsval

text \<open>
  The provider SDK is outside the repository. Its three calls are parameters of the
  model: \<^verbatim>\<open>ZAI.create()\<close> resolves with a client handle or rejects,
  \<^verbatim>\<open>zai.video.generations.create(params)\<close> and \<^verbatim>\<open>zai.async.result.query(taskId)\<close>
  resolve with a value or reject.
\<close>

record provider =
  create :: "thrown option"
  generations_create :: "gen_params \<Rightarrow> thrown + jsval"
  result_query :: "string \<Rightarrow> thrown + jsval"

datatype provider_call = CreateClient | Generate gen_params | Query string

text \<open>
  What one invocation of a route handler does: the response, whether the module-level
  \<^verbatim>\<open>zaiInstance\<close> is set afterwards, and the provider calls made, in order.
\<close>

record outcome =
  response :: http_response
  zaiInstance :: bool
  provider_calls :: "provider_call list"

text \<open>
  \<^verbatim>\<open>getZAIInstance\<close>: the handle is created on first use and kept in \<^verbatim>\<open>zaiInstance\<close>
  (the Boolean says whether it is set). A rejected creation leaves it unset.
\<close>

definition getZAIInstance :: "provider \<Rightarrow> bool \<Rightarrow> (thrown + unit) \<times> bool \<times> provider_call list" where
  "getZAIInstance p inst =
     (if \<not> inst then
        (case create p of
           Some e \<Rightarrow> (Inl e, False, [CreateClient])
         | None \<Rightarrow> (Inr (), True, [CreateClient]))
      else (Inr (), inst, []))"

section \<open>The submission route\<close>

definition default_prompt :: string where
  "default_prompt = ''Make this image come alive with smooth, loopable motion''"

text \<open>
  The body of the \<^verbatim>\<open>try\<close> block of \<^verbatim>\<open>POST\<close>. The request is what
  \<^verbatim>\<open>request.json()\<close> gives: a parsed body, or a rejection for a body that is not JSON.
\<close>

definition POST_try ::
  "provider \<Rightarrow> bool \<Rightarrow> thrown + jsval \<Rightarrow> (thrown + http_response) \<times> bool \<times> provider_call list" where
  "POST_try p inst req =
     (case req of
        Inl e \<Rightarrow> (Inl e, inst, [])
      | Inr body \<Rightarrow>
          if nullish body then
            (Inl (ErrorObj (''Cannot destructure property '' @ [CHR 0x27] @ ''imageData'' @ [CHR 0x27]
                    @ '' of '' @ [CHR 0x27] @ ''body'' @ [CHR 0x27] @ '' as it is ''
                    @ (if body = JNull then ''null'' else ''undefined'') @ ''.'')), inst, [])
          else
            let imageData = field body ''imageData'' in
            if \<not> truthy imageData then
              (Inr (json_response 400 [(''error'', JStr ''Image data is required'')]), inst, [])
            else
              (case imageData of
                 JStr s \<Rightarrow>
                   if \<not> starts_with s ''data:image/'' then
                     (Inr (json_response 400 [(''error'', JStr
                        ''Invalid image data format. Must be a base64-encoded image with data URL format'')]),
                      inst, [])
                   else
                     (case getZAIInstance p inst of
                        (Inl e, inst', cs) \<Rightarrow> (Inl e, inst', cs)
                      | (Inr u, inst', cs) \<Rightarrow>
                          let params = \<lparr>image_url = imageData,
                                prompt = js_or (field body ''prompt'') (JStr default_prompt),
                                quality = js_or (field body ''quality'') (JStr ''speed''),
                                duration = js_or (field body ''duration'') (JNum 5),
                                fps = js_or (field body ''fps'') (JNum 30),
                                size = js_or (field body ''size'') (JStr ''1024x1024'')\<rparr>
                          in (case generations_create p params of
                                Inl e \<Rightarrow> (Inl e, inst', cs @ [Generate params])
                              | Inr task \<Rightarrow>
                                  (case get task ''id'' of
                                     Inl e \<Rightarrow> (Inl e, inst', cs @ [Generate params])
                                   | Inr task_id \<Rightarrow>
                                       (Inr (json_response 200
                                          [(''success'', JBool True),
                                           (''taskId'', task_id),
                                           (''status'', field task ''task_status'')]),
                                        inst', cs @ [Generate params]))))
               | _ \<Rightarrow> (Inl (ErrorObj ''imageData.startsWith is not a function''), inst, [])))"

text \<open>The \<^verbatim>\<open>catch\<close> block shared by both routes, with the route's fallback message.\<close>

definition error_response :: "string \<Rightarrow> thrown \<Rightarrow> http_response" where
  "error_response fallback e =
     json_response 500 [(''error'', JStr (case e of ErrorObj m \<Rightarrow> m | NonError \<Rightarrow> fallback))]"

definition POST :: "provider \<Rightarrow> bool \<Rightarrow> thrown + jsval \<Rightarrow> outcome" where
  "POST p inst req =
     (case POST_try p inst req of
        (Inl e, inst', cs) \<Rightarrow>
          \<lparr>response = error_response ''Failed to create video generation task'' e,
           zaiInstance = inst', provider_calls = cs\<rparr>
      | (Inr r, inst', cs) \<Rightarrow> \<lparr>response = r, zaiInstance = inst', provider_calls = cs\<rparr>)"

section \<open>The status route\<close>

text \<open>
  The result location, as the source reads it:
  \<^verbatim>\<open>result.video_result?.[0]?.url || result.video_url || result.url || result.video\<close>.
\<close>

definition wrapped_url :: "jsval \<Rightarrow> jsval" where
  "wrapped_url result = opt_field (opt_index0 (field result ''video_result'')) ''url''"

definition videoUrl_of :: "jsval \<Rightarrow> jsval" where
  "videoUrl_of result =
     js_or (js_or (js_or (wrapped_url result) (field result ''video_url''))
                  (field result ''url''))
           (field result ''video'')"

text \<open>
  The body of the \<^verbatim>\<open>try\<close> block of \<^verbatim>\<open>GET\<close>. The argument is
  \<^verbatim>\<open>searchParams.get('taskId')\<close>: \<open>None\<close> for \<^verbatim>\<open>null\<close>, when the parameter is absent.
\<close>

definition GET_try ::
  "provider \<Rightarrow> bool \<Rightarrow> string option \<Rightarrow> (thrown + http_response) \<times> bool \<times> provider_call list" where
  "GET_try p inst taskId =
     (case taskId of
        None \<Rightarrow> (Inr (json_response 400 [(''error'', JStr ''Task ID is required'')]), inst, [])
      | Some t \<Rightarrow>
          if t = [] then
            (Inr (json_response 400 [(''error'', JStr ''Task ID is required'')]), inst, [])
          else
            (case getZAIInstance p inst of
               (Inl e, inst', cs) \<Rightarrow> (Inl e, inst', cs)
             | (Inr u, inst', cs) \<Rightarrow>
                 (case result_query p t of
                    Inl e \<Rightarrow> (Inl e, inst', cs @ [Query t])
                  | Inr result \<Rightarrow>
                      (case get result ''task_status'' of
                         Inl e \<Rightarrow> (Inl e, inst', cs @ [Query t])
                       | Inr task_status \<Rightarrow>
                           let base = [(''taskId'', JStr t), (''status'', task_status)] in
                           (Inr (json_response 200
                              (if task_status = JStr ''SUCCESS'' \<and> truthy (videoUrl_of result)
                               then base @ [(''videoUrl'', videoUrl_of result)]
                               else base)),
                            inst', cs @ [Query t])))))"

definition GET :: "provider \<Rightarrow> bool \<Rightarrow> string option \<Rightarrow> outcome" where
  "GET p inst taskId =
     (case GET_try p inst taskId of
        (Inl e, inst', cs) \<Rightarrow>
          \<lparr>response = error_response ''Failed to query video generation status'' e,
           zaiInstance = inst', provider_calls = cs\<rparr>
      | (Inr r, inst', cs) \<Rightarrow> \<lparr>response = r, zaiInstance = inst', provider_calls = cs\<rparr>)"

section \<open>The page: session state\<close>

text \<open>
  The React state of \<^verbatim>\<open>ImageToVideoPage\<close> that the handlers below write. State updates
  are applied in the order in which the handlers issue them. The generation parameters
  (prompt, quality, duration, fps, resolution) are only read when the request is built
  and are left out.
\<close>

record GenerateState =
  isUploading :: bool
  isGenerating :: bool
  isPolling :: bool
  progress :: real
  status :: string

record page_state =
  uploadedImage :: "string option"
  generatedVideoUrl :: jsval
  taskId :: jsval
  generateState :: GenerateState

text \<open>
  The text of a toast: a string, or the string conversion of a value that is not a
  string (\<^verbatim>\<open>new Error(v).message\<close>), which is kept symbolic.
\<close>

datatype message = Msg string | StringOf jsval

definition message_of :: "jsval \<Rightarrow> message" where
  "message_of v = (case v of JStr s \<Rightarrow> Msg s | _ \<Rightarrow> StringOf v)"

record toast =
  destructive :: bool
  title :: string
  description :: message

text \<open>What a \<^verbatim>\<open>catch\<close> block of the page receives.\<close>

datatype failure = Failure message | NotAnError

definition failure_of :: "thrown \<Rightarrow> failure" where
  "failure_of e = (case e of ErrorObj m \<Rightarrow> Failure (Msg m) | NonError \<Rightarrow> NotAnError)"

text \<open>
  The outcome of \<^verbatim>\<open>fetch\<close> followed by \<^verbatim>\<open>response.json()\<close>: either of them rejects,
  or there are \<^verbatim>\<open>response.ok\<close> and the parsed body.
\<close>

datatype fetched = FetchThrows failure | Fetched bool jsval

definition fetch_of :: "http_response \<Rightarrow> fetched" where
  "fetch_of r = Fetched (200 \<le> http_status r \<and> http_status r \<le> 299) (http_body r)"

definition idle :: GenerateState where
  "idle = \<lparr>isUploading = False, isGenerating = False, isPolling = False, progress = 0, status = []\<rparr>"

definition generation_failed :: "failure \<Rightarrow> toast" where
  "generation_failed e =
     \<lparr>destructive = True, title = ''Generation failed'',
      description = (case e of Failure m \<Rightarrow> m | NotAnError \<Rightarrow> Msg ''Failed to generate video'')\<rparr>"

section \<open>The page: upload\<close>

record js_file =
  file_size :: nat
  file_type :: string

definition file_too_large :: toast where
  "file_too_large = \<lparr>destructive = True, title = ''File too large'',
     description = Msg ''Please upload an image smaller than 10MB''\<rparr>"

definition invalid_file_type :: toast where
  "invalid_file_type = \<lparr>destructive = True, title = ''Invalid file type'',
     description = Msg ''Please upload an image file (JPEG, PNG, WebP)''\<rparr>"

definition image_uploaded :: toast where
  "image_uploaded = \<lparr>destructive = False, title = ''Image uploaded'',
     description = Msg ''Your image is ready to be transformed into a video''\<rparr>"

text \<open>
  Both upload handlers return the state, the toasts shown and whether a
  \<^verbatim>\<open>FileReader\<close> was started on the file. The argument is the first file of the
  event, \<open>None\<close> when there is none.
\<close>

definition handleImageUpload :: "js_file option \<Rightarrow> page_state \<Rightarrow> page_state \<times> toast list \<times> bool" where
  "handleImageUpload f s =
     (case f of
        None \<Rightarrow> (s, [], False)
      | Some fl \<Rightarrow>
          if file_size fl > 10 * 1024 * 1024 then (s, [file_too_large], False)
          else if \<not> starts_with (file_type fl) ''image/'' then (s, [invalid_file_type], False)
          else (s, [], True))"

definition handleDrop :: "js_file option \<Rightarrow> page_state \<Rightarrow> page_state \<times> toast list \<times> bool" where
  "handleDrop f s =
     (case f of
        None \<Rightarrow> (s, [], False)
      | Some fl \<Rightarrow>
          if starts_with (file_type fl) ''image/'' then
            (if file_size fl > 10 * 1024 * 1024 then (s, [file_too_large], False)
             else (s, [], True))
          else (s, [], False))"

text \<open>
  \<^verbatim>\<open>reader.onloadend\<close>, the same in both handlers. The argument is \<^verbatim>\<open>reader.result\<close>:
  the data URL, or \<open>None\<close> for \<^verbatim>\<open>null\<close> when the read failed.
\<close>

definition onloadend :: "string option \<Rightarrow> page_state \<Rightarrow> page_state \<times> toast list" where
  "onloadend result s =
     (s\<lparr>uploadedImage := result, generatedVideoUrl := JNull, taskId := JNull, generateState := idle\<rparr>,
      [image_uploaded])"

definition resetUpload :: "page_state \<Rightarrow> page_state" where
  "resetUpload s =
     s\<lparr>uploadedImage := None, generatedVideoUrl := JNull, taskId := JNull, generateState := idle\<rparr>"

section \<open>The page: submitting\<close>

text \<open>
  \<^verbatim>\<open>generateVideo\<close> up to its \<^verbatim>\<open>fetch\<close>: the state, the toasts and whether the request
  was sent.
\<close>

definition generateVideo_start :: "page_state \<Rightarrow> page_state \<times> toast list \<times> bool" where
  "generateVideo_start s =
     (if uploadedImage s = None \<or> uploadedImage s = Some [] then
        (s, [\<lparr>destructive = True, title = ''No image uploaded'',
              description = Msg ''Please upload an image first''\<rparr>], False)
      else
        (s\<lparr>generateState := \<lparr>isUploading = True, isGenerating = True, isPolling = False,
              progress = 10, status = ''Creating video generation task...''\<rparr>\<rparr>, [], True))"

text \<open>
  \<^verbatim>\<open>generateVideo\<close> from the answer on: the state, the toasts, and the task id that
  \<^verbatim>\<open>pollForResults\<close> is started with, if it is started.
\<close>

definition generateVideo_response :: "fetched \<Rightarrow> page_state \<Rightarrow> page_state \<times> toast list \<times> jsval option" where
  "generateVideo_response f s =
     (let caught = (\<lambda>e. (s\<lparr>generateState := idle\<rparr>, [generation_failed e], None)) in
      case f of
        FetchThrows e \<Rightarrow> caught e
      | Fetched ok data \<Rightarrow>
          if \<not> ok then
            (case get data ''error'' of
               Inl e \<Rightarrow> caught (failure_of e)
             | Inr er \<Rightarrow> caught (Failure (message_of
                 (js_or er (JStr ''Failed to create video generation task'')))))
          else
            (case get data ''taskId'' of
               Inl e \<Rightarrow> caught (failure_of e)
             | Inr tid \<Rightarrow>
                 (s\<lparr>taskId := tid,
                    generateState := (generateState s)\<lparr>isUploading := False, isPolling := True,
                      progress := 20, status := ''Task created. Starting video generation...''\<rparr>\<rparr>,
                  [], Some tid)))"

section \<open>The page: polling\<close>

definition maxPolls :: nat where
  "maxPolls = 200"

definition pollInterval :: nat where
  "pollInterval = 3000"

definition digit :: "nat \<Rightarrow> char" where
  "digit d = ''0123456789'' ! d"

function show_nat :: "nat \<Rightarrow> string" where
  "show_nat n = (if n < 10 then [digit n] else show_nat (n div 10) @ [digit (n mod 10)])"
  by pat_completeness auto
termination
  by (relation "measure id") auto

text \<open>
  \<^verbatim>\<open>x.toFixed(1)\<close> for \<open>x \<ge> 0\<close>: the nearest number with one decimal, the larger one
  at a tie. The number is the exact quotient, not the double nearest to it: where the
  quotient lies midway between two decimals and is not itself a double, the source may
  print the smaller decimal. At 200 polls the quotient is the integer 10.
\<close>

definition toFixed1 :: "real \<Rightarrow> string" where
  "toFixed1 x = (let n = nat \<lfloor>x * 10 + 1 / 2\<rfloor> in show_nat (n div 10) @ ''.'' @ show_nat (n mod 10))"

definition elapsedMinutes :: "nat \<Rightarrow> string" where
  "elapsedMinutes pollCount = toFixed1 (real (pollCount * pollInterval) / 60000)"

text \<open>
  \<^verbatim>\<open>Math.min(20 + (pollCount / maxPolls) * 70, 90)\<close>, in exact arithmetic. The doubles
  of the source round each operation to the nearest double, which keeps the order of
  the values and the bounds 20 and 90.
\<close>

definition progress_of :: "nat \<Rightarrow> real" where
  "progress_of pollCount = min (20 + (real pollCount / real maxPolls) * 70) 90"

definition timed_out :: "nat \<Rightarrow> string" where
  "timed_out pollCount = ''Video generation timed out after '' @ elapsedMinutes pollCount
     @ '' minutes. Please try again or use '' @ [CHR 0x22] @ ''speed'' @ [CHR 0x22]
     @ '' mode for faster generation.''"

text \<open>
  What an iteration of \<^verbatim>\<open>poll\<close> leaves behind: nothing, or a timer
  (\<^verbatim>\<open>setTimeout(poll, delay)\<close>) for the next iteration with the new \<^verbatim>\<open>pollCount\<close>.
\<close>

datatype continuation = Stop | Schedule nat nat

text \<open>
  The \<^verbatim>\<open>try\<close> block of one iteration of \<^verbatim>\<open>poll\<close>, at the given \<^verbatim>\<open>pollCount\<close>, from
  the answer of its \<^verbatim>\<open>fetch\<close> on. The task id of the closure is only used in the URL
  of the request. The page state is returned as it is when the block ends or throws.
  An OK answer whose body is \<^verbatim>\<open>null\<close> throws where its status is first read.
\<close>

definition poll_try :: "nat \<Rightarrow> fetched \<Rightarrow> page_state \<Rightarrow> (failure + continuation \<times> toast list) \<times> page_state" where
  "poll_try pollCount f s =
     (case f of
        FetchThrows e \<Rightarrow> (Inl e, s)
      | Fetched ok data \<Rightarrow>
          if \<not> ok then
            (case get data ''error'' of
               Inl e \<Rightarrow> (Inl (failure_of e), s)
             | Inr er \<Rightarrow> (Inl (Failure (message_of (js_or er (JStr ''Failed to check status'')))), s))
          else
            (case get data ''status'' of
               Inl e \<Rightarrow> (Inl (failure_of e), s)
             | Inr st \<Rightarrow>
                 let s1 = s\<lparr>generateState := (generateState s)\<lparr>progress := progress_of pollCount,
                            status := (if st = JStr ''PROCESSING''
                              then ''Generating your animated video... ('' @ elapsedMinutes pollCount
                                   @ '' minutes elapsed)''
                              else ''Almost done...'')\<rparr>\<rparr>
                 in
                 if st = JStr ''SUCCESS'' \<and> truthy (field data ''videoUrl'') then
                   (Inr (Stop, [\<lparr>destructive = False, title = ''Success!'',
                                  description = Msg ''Your animated video has been generated''\<rparr>]),
                    s1\<lparr>generatedVideoUrl := field data ''videoUrl'',
                       generateState := \<lparr>isUploading = False, isGenerating = False, isPolling = False,
                         progress = 100, status = ''Video generated successfully!''\<rparr>\<rparr>)
                 else if st = JStr ''FAIL'' then
                   (Inl (Failure (Msg ''Video generation failed'')), s1)
                 else if pollCount < maxPolls then
                   (Inr (Schedule pollInterval (pollCount + 1), []), s1)
                 else
                   (Inl (Failure (Msg (timed_out pollCount))), s1)))"

text \<open>One iteration of \<^verbatim>\<open>poll\<close> with its \<^verbatim>\<open>catch\<close> block.\<close>

definition poll :: "nat \<Rightarrow> fetched \<Rightarrow> page_state \<Rightarrow> page_state \<times> toast list \<times> continuation" where
  "poll pollCount f s =
     (case poll_try pollCount f s of
        (Inl e, s') \<Rightarrow> (s'\<lparr>generateState := idle\<rparr>, [generation_failed e], Stop)
      | (Inr (nx, ts), s') \<Rightarrow> (s', ts, nx))"

text \<open>
  The chain of iterations that \<^verbatim>\<open>pollForResults\<close> starts, run on the answers that its
  requests get, in order: what each iteration leaves behind. The first iteration runs
  at once with \<^verbatim>\<open>pollCount = 0\<close>; every further one runs when the timer of the one
  before fires. The chain ends with the first iteration that sets no timer.
\<close>

fun poll_chain :: "nat \<Rightarrow> fetched list \<Rightarrow> page_state \<Rightarrow> (page_state \<times> toast list \<times> continuation) list" where
  "poll_chain pollCount [] s = []"
| "poll_chain pollCount (f # fs) s =
     (case poll pollCount f s of
        (s', ts, Stop) \<Rightarrow> [(s', ts, Stop)]
      | (s', ts, Schedule d n) \<Rightarrow> (s', ts, Schedule d n) # poll_chain n fs s')"

definition pollForResults :: "fetched list \<Rightarrow> page_state \<Rightarrow> (page_state \<times> toast list \<times> continuation) list" where
  "pollForResults fs s = poll_chain 0 fs s"

section \<open>Notions of the specification and example inputs\<close>

text \<open>
  The specification's wording of the result location: the recognised fields in their
  fixed priority order, and the first non-empty one among them.
\<close>

definition url_candidates :: "jsval \<Rightarrow> jsval list" where
  "url_candidates result =
     [wrapped_url result, field result ''video_url'', field result ''url'', field result ''video'']"

definition first_non_empty :: "jsval list \<Rightarrow> jsval option" where
  "first_non_empty vs = find truthy vs"

text \<open>The task ids of the status queries among the provider calls of an invocation.\<close>

fun queries :: "provider_call list \<Rightarrow> string list" where
  "queries [] = []"
| "queries (Query t # cs) = t # queries cs"
| "queries (c # cs) = queries cs"

text \<open>
  An answer to a poll that resolves nothing: an OK response that is neither SUCCESS
  with a video URL nor FAIL.
\<close>

definition unresolved :: "fetched \<Rightarrow> bool" where
  "unresolved f =
     (case f of
        FetchThrows e \<Rightarrow> False
      | Fetched ok data \<Rightarrow>
          ok \<and> (if nullish data then False
                else if field data ''status'' = JStr ''SUCCESS'' \<and> truthy (field data ''videoUrl'')
                then False
                else field data ''status'' \<noteq> JStr ''FAIL''))"

text \<open>An answer that resolves the task: OK, SUCCESS and a video URL.\<close>

definition succeeded :: "fetched \<Rightarrow> bool" where
  "succeeded f =
     (case f of
        FetchThrows e \<Rightarrow> False
      | Fetched ok data \<Rightarrow>
          ok \<and> field data ''status'' = JStr ''SUCCESS'' \<and> truthy (field data ''videoUrl''))"

definition example_result :: jsval where
  "example_result = JObj [(''task_status'', JStr ''SUCCESS''),
     (''video_result'', JArr [JObj [(''url'', JStr ''https://cdn.example/a.mp4'')]]),
     (''video_url'', JStr ''https://cdn.example/b.mp4'')]"

definition example_result_no_url :: jsval where
  "example_result_no_url = JObj [(''task_status'', JStr ''SUCCESS''), (''video_result'', JArr [])]"

definition example_task :: jsval where
  "example_task = JObj [(''id'', JStr ''task-1''), (''task_status'', JStr ''PROCESSING'')]"

definition example_provider :: provider where
  "example_provider = \<lparr>create = None,
     generations_create = (\<lambda>ps. Inr example_task),
     result_query = (\<lambda>t. if t = ''task-2'' then Inr example_result_no_url else Inr example_result)\<rparr>"

definition example_image :: string where
  "example_image = ''data:image/png;base64,iVBORw0KGgo=''"

definition example_body :: jsval where
  "example_body = JObj [(''imageData'', JStr example_image), (''duration'', JNum 10),
     (''fps'', JNum 60), (''size'', JStr ''1920x1080'')]"

definition example_body_falsy :: jsval where
  "example_body_falsy = JObj [(''imageData'', JStr example_image), (''prompt'', JStr []),
     (''duration'', JNum 0), (''fps'', JNum 0), (''size'', JStr [])]"

definition example_polling :: page_state where
  "example_polling = \<lparr>uploadedImage = Some example_image, generatedVideoUrl = JNull,
     taskId = JStr ''task-1'',
     generateState = \<lparr>isUploading = False, isGenerating = True, isPolling = True, progress = 20,
       status = ''Task created. Starting video generation...''\<rparr>\<rparr>"

definition example_processing :: fetched where
  "example_processing = Fetched True (JObj [(''taskId'', JStr ''task-1''), (''status'', JStr ''PROCESSING'')])"

definition example_success :: fetched where
  "example_success = Fetched True (JObj [(''taskId'', JStr ''task-1''), (''status'', JStr ''SUCCESS''),
     (''videoUrl'', JStr ''https://cdn.example/a.mp4'')])"

definition example_pdf :: js_file where
  "example_pdf = \<lparr>file_size = 1000, file_type = ''application/pdf''\<rparr>"

definition example_created :: jsval where
  "example_created = JObj [(''success'', JBool True), (''taskId'', JStr ''task-1''),
     (''status'', JStr ''PROCESSING'')]"

definition example_answers :: "fetched list" where
  "example_answers = [example_processing, example_processing, example_success]"

definition example_fail :: fetched where
  "example_fail = Fetched True (JObj [(''taskId'', JStr ''task-1''), (''status'', JStr ''FAIL'')])"

definition example_failing :: "fetched list" where
  "example_failing = [example_processing, example_fail]"

section \<open>Properties of the routes\<close>

lemma getZAIInstance_available:
  "inst \<or> create p = None \<Longrightarrow>
   getZAIInstance p inst = (Inr (), True, if inst then [] else [CreateClient])"
  by (auto simp: getZAIInstance_def)

lemma field_not_nullish: "field body k = JStr s \<Longrightarrow> \<not> nullish body"
  by (cases body) auto

lemma videoUrl_of_first_non_empty:
  "first_non_empty (url_candidates result) =
     (if truthy (videoUrl_of result) then Some (videoUrl_of result) else None)"
  by (simp add: first_non_empty_def url_candidates_def videoUrl_of_def js_or_def)

lemma GET_queried:
  assumes "t \<noteq> []" and "inst \<or> create p = None" and "result_query p t = Inr result"
    and "\<not> nullish result"
  shows "GET p inst (Some t) =
     \<lparr>response = json_response 200
        ([(''taskId'', JStr t), (''status'', field result ''task_status'')] @
         (if field result ''task_status'' = JStr ''SUCCESS'' \<and> truthy (videoUrl_of result)
          then [(''videoUrl'', videoUrl_of result)] else [])),
      zaiInstance = True,
      provider_calls = (if inst then [] else [CreateClient]) @ [Query t]\<rparr>"
  using assms
  by (simp add: GET_def GET_try_def getZAIInstance_available get_def Let_def)

lemma GET_success_response:
  assumes "t \<noteq> []" and "inst \<or> create p = None" and "result_query p t = Inr result"
    and "field result ''task_status'' = JStr ''SUCCESS''"
  shows "response (GET p inst (Some t)) =
     \<lparr>http_status = 200,
      http_body = JObj ([(''taskId'', JStr t), (''status'', JStr ''SUCCESS'')] @
        (case first_non_empty (url_candidates result) of
           None \<Rightarrow> [] | Some u \<Rightarrow> [(''videoUrl'', u)]))\<rparr>"
proof -
  have "\<not> nullish result" using assms(4) by (rule field_not_nullish)
  then show ?thesis
    using assms
    by (auto simp: GET_queried videoUrl_of_first_non_empty json_response_def)
qed

lemma GET_videoUrl_only_if:
  assumes "''videoUrl'' \<in> set (body_keys (http_body (response (GET p inst tid))))"
  shows "http_status (response (GET p inst tid)) = 200 \<and>
     (\<exists>t result. tid = Some t \<and> result_query p t = Inr result \<and>
        field result ''task_status'' = JStr ''SUCCESS'' \<and>
        first_non_empty (url_candidates result) \<noteq> None)"
  using assms
  by (auto simp: GET_def GET_try_def getZAIInstance_def get_def json_response_def Let_def
      error_response_def videoUrl_of_first_non_empty
      split: option.splits sum.splits if_splits prod.splits)

lemma first_non_empty_single:
  assumes "i < length cs" and "truthy (cs ! i)" and "\<forall>j<length cs. j \<noteq> i \<longrightarrow> \<not> truthy (cs ! j)"
  shows "first_non_empty cs = Some (cs ! i)"
  using assms unfolding first_non_empty_def
proof (induction cs arbitrary: i)
  case Nil
  then show ?case by simp
next
  case (Cons c cs)
  show ?case
  proof (cases i)
    case 0
    then show ?thesis using Cons.prems by simp
  next
    case (Suc k)
    have "\<not> truthy c" using Cons.prems(3) Suc by auto
    moreover have "find truthy cs = Some (cs ! k)"
    proof (rule Cons.IH)
      show "k < length cs" using Cons.prems(1) Suc by simp
      show "truthy (cs ! k)" using Cons.prems(2) Suc by simp
      show "\<forall>j<length cs. j \<noteq> k \<longrightarrow> \<not> truthy (cs ! j)"
      proof (intro allI impI)
        fix j assume "j < length cs" "j \<noteq> k"
        then have "Suc j < length (c # cs)" "Suc j \<noteq> i" using Suc by auto
        then have "\<not> truthy ((c # cs) ! Suc j)" using Cons.prems(3) by blast
        then show "\<not> truthy (cs ! j)" by simp
      qed
    qed
    ultimately show ?thesis using Suc by simp
  qed
qed

text \<open>
  C2. When the provider answers a status query with status SUCCESS, the status route
  answers 200 with the task id, the status and, as \<^verbatim>\<open>videoUrl\<close>, the first non-empty
  (truthy; for a string: not the empty string) value among \<^verbatim>\<open>video_result[0].url\<close>,
  \<^verbatim>\<open>video_url\<close>, \<^verbatim>\<open>url\<close>, \<^verbatim>\<open>video\<close>, in this order, and without \<^verbatim>\<open>videoUrl\<close> when
  none is non-empty. The wrapped-list entry wins whenever it is non-empty; a URL carried
  by exactly one of the four fields is returned whichever field carries it; and no
  answer of the route has a \<^verbatim>\<open>videoUrl\<close> unless it is a 200 for a SUCCESS result with
  a non-empty field.
\<close>

theorem status_url_resolution:
  "(t \<noteq> [] \<and> (inst \<or> create p = None) \<and> result_query p t = Inr result \<and>
    field result ''task_status'' = JStr ''SUCCESS'' \<longrightarrow>
      response (GET p inst (Some t)) =
        \<lparr>http_status = 200,
         http_body = JObj ([(''taskId'', JStr t), (''status'', JStr ''SUCCESS'')] @
           (case first_non_empty (url_candidates result) of
              None \<Rightarrow> [] | Some u \<Rightarrow> [(''videoUrl'', u)]))\<rparr>) \<and>
   (truthy (wrapped_url result) \<longrightarrow>
      first_non_empty (url_candidates result) = Some (wrapped_url result)) \<and>
   (\<forall>i<4. truthy (url_candidates result ! i) \<and>
        (\<forall>j<4. j \<noteq> i \<longrightarrow> \<not> truthy (url_candidates result ! j)) \<longrightarrow>
      first_non_empty (url_candidates result) = Some (url_candidates result ! i)) \<and>
   (\<forall>s. truthy (JStr s) = (s \<noteq> [])) \<and>
   (''videoUrl'' \<in> set (body_keys (http_body (response (GET p inst tid)))) \<longrightarrow>
      http_status (response (GET p inst tid)) = 200 \<and>
      (\<exists>t' result'. tid = Some t' \<and> result_query p t' = Inr result' \<and>
         field result' ''task_status'' = JStr ''SUCCESS'' \<and>
         first_non_empty (url_candidates result') \<noteq> None))"
proof -
  have a: "t \<noteq> [] \<and> (inst \<or> create p = None) \<and> result_query p t = Inr result \<and>
    field result ''task_status'' = JStr ''SUCCESS'' \<longrightarrow>
      response (GET p inst (Some t)) =
        \<lparr>http_status = 200,
         http_body = JObj ([(''taskId'', JStr t), (''status'', JStr ''SUCCESS'')] @
           (case first_non_empty (url_candidates result) of
              None \<Rightarrow> [] | Some u \<Rightarrow> [(''videoUrl'', u)]))\<rparr>"
    by (simp add: GET_success_response)
  have b: "truthy (wrapped_url result) \<longrightarrow>
      first_non_empty (url_candidates result) = Some (wrapped_url result)"
    by (simp add: first_non_empty_def url_candidates_def)
  have len: "length (url_candidates result) = 4"
    by (simp add: url_candidates_def)
  have c: "\<forall>i<4. truthy (url_candidates result ! i) \<and>
        (\<forall>j<4. j \<noteq> i \<longrightarrow> \<not> truthy (url_candidates result ! j)) \<longrightarrow>
      first_non_empty (url_candidates result) = Some (url_candidates result ! i)"
    using first_non_empty_single [of _ "url_candidates result"] len by simp
  have d: "\<forall>s. truthy (JStr s) = (s \<noteq> [])"
    by simp
  have e: "''videoUrl'' \<in> set (body_keys (http_body (response (GET p inst tid)))) \<longrightarrow>
      http_status (response (GET p inst tid)) = 200 \<and>
      (\<exists>t' result'. tid = Some t' \<and> result_query p t' = Inr result' \<and>
         field result' ''task_status'' = JStr ''SUCCESS'' \<and>
         first_non_empty (url_candidates result') \<noteq> None)"
    using GET_videoUrl_only_if [of p inst tid] by blast
  show ?thesis
    by (intro conjI; fact)
qed

theorem status_url_resolution_witness:
  "result_query example_provider ''task-1'' = Inr example_result \<and>
   field example_result ''task_status'' = JStr ''SUCCESS'' \<and>
   truthy (wrapped_url example_result) \<and>
   truthy (field example_result ''video_url'') \<and>
   response (GET example_provider False (Some ''task-1'')) =
     \<lparr>http_status = 200,
      http_body = JObj [(''taskId'', JStr ''task-1''), (''status'', JStr ''SUCCESS''),
        (''videoUrl'', JStr ''https://cdn.example/a.mp4'')]\<rparr> \<and>
   first_non_empty (url_candidates example_result) = Some (wrapped_url example_result) \<and>
   ''videoUrl'' \<in> set (body_keys (http_body (response (GET example_provider False (Some ''task-1'')))))"
  using status_url_resolution [of "''task-1''" False example_provider example_result "Some ''task-1''"]
  by (simp add: example_provider_def example_result_def first_non_empty_def url_candidates_def
      wrapped_url_def opt_field_def)

lemma POST_valid:
  assumes "field body ''imageData'' = JStr img" and "starts_with img ''data:image/''"
    and "inst \<or> create p = None"
  shows "provider_calls (POST p inst (Inr body)) =
     (if inst then [] else [CreateClient]) @
     [Generate \<lparr>image_url = JStr img,
        prompt = js_or (field body ''prompt'') (JStr default_prompt),
        quality = js_or (field body ''quality'') (JStr ''speed''),
        duration = js_or (field body ''duration'') (JNum 5),
        fps = js_or (field body ''fps'') (JNum 30),
        size = js_or (field body ''size'') (JStr ''1024x1024'')\<rparr>]"
proof -
  have ne: "img \<noteq> []" using assms(2) by (auto simp: starts_with_def)
  have nn: "\<not> nullish body" using assms(1) by (rule field_not_nullish)
  show ?thesis
    using assms ne nn
    by (simp add: POST_def POST_try_def getZAIInstance_available Let_def split: sum.splits)
qed

text \<open>
  C5. A submission whose body has only a valid \<^verbatim>\<open>imageData\<close> reaches the provider
  (once the client handle is there) with the prompt "Make this image come alive with
  smooth, loopable motion", quality "speed", duration 5, fps 30 and size "1024x1024";
  a submission that supplies duration 10, fps 60 and size "1920x1080" reaches it with
  exactly these three values.
\<close>

theorem submission_defaults_and_passthrough:
  "(starts_with img ''data:image/'' \<and> (inst \<or> create p = None) \<longrightarrow>
      provider_calls (POST p inst (Inr (JObj [(''imageData'', JStr img)]))) =
        (if inst then [] else [CreateClient]) @
        [Generate \<lparr>image_url = JStr img,
           prompt = JStr ''Make this image come alive with smooth, loopable motion'',
           quality = JStr ''speed'', duration = JNum 5, fps = JNum 30,
           size = JStr ''1024x1024''\<rparr>]) \<and>
   (field body ''imageData'' = JStr img \<and> starts_with img ''data:image/'' \<and>
    (inst \<or> create p = None) \<and> field body ''duration'' = JNum 10 \<and>
    field body ''fps'' = JNum 60 \<and> field body ''size'' = JStr ''1920x1080'' \<longrightarrow>
      provider_calls (POST p inst (Inr body)) =
        (if inst then [] else [CreateClient]) @
        [Generate \<lparr>image_url = JStr img,
           prompt = js_or (field body ''prompt'') (JStr default_prompt),
           quality = js_or (field body ''quality'') (JStr ''speed''),
           duration = JNum 10, fps = JNum 60, size = JStr ''1920x1080''\<rparr>])"
proof -
  have a: "starts_with img ''data:image/'' \<and> (inst \<or> create p = None) \<longrightarrow>
      provider_calls (POST p inst (Inr (JObj [(''imageData'', JStr img)]))) =
        (if inst then [] else [CreateClient]) @
        [Generate \<lparr>image_url = JStr img,
           prompt = JStr ''Make this image come alive with smooth, loopable motion'',
           quality = JStr ''speed'', duration = JNum 5, fps = JNum 30,
           size = JStr ''1024x1024''\<rparr>]"
    using POST_valid [of "JObj [(''imageData'', JStr img)]" img inst p]
    by (simp add: js_or_def default_prompt_def)
  have b: "field body ''imageData'' = JStr img \<and> starts_with img ''data:image/'' \<and>
    (inst \<or> create p = None) \<and> field body ''duration'' = JNum 10 \<and>
    field body ''fps'' = JNum 60 \<and> field body ''size'' = JStr ''1920x1080'' \<longrightarrow>
      provider_calls (POST p inst (Inr body)) =
        (if inst then [] else [CreateClient]) @
        [Generate \<lparr>image_url = JStr img,
           prompt = js_or (field body ''prompt'') (JStr default_prompt),
           quality = js_or (field body ''quality'') (JStr ''speed''),
           duration = JNum 10, fps = JNum 60, size = JStr ''1920x1080''\<rparr>]"
    using POST_valid [of body img inst p]
    by (simp add: js_or_def)
  show ?thesis
    by (intro conjI; fact)
qed

theorem submission_defaults_and_passthrough_witness:
  "starts_with example_image ''data:image/'' \<and>
   field example_body ''imageData'' = JStr example_image \<and>
   provider_calls (POST example_provider False (Inr (JObj [(''imageData'', JStr example_image)]))) =
     [CreateClient,
      Generate \<lparr>image_url = JStr example_image,
         prompt = JStr ''Make this image come alive with smooth, loopable motion'',
         quality = JStr ''speed'', duration = JNum 5, fps = JNum 30,
         size = JStr ''1024x1024''\<rparr>] \<and>
   provider_calls (POST example_provider False (Inr example_body)) =
     [CreateClient,
      Generate \<lparr>image_url = JStr example_image,
         prompt = JStr ''Make this image come alive with smooth, loopable motion'',
         quality = JStr ''speed'', duration = JNum 10, fps = JNum 60,
         size = JStr ''1920x1080''\<rparr>]"
  using submission_defaults_and_passthrough [of example_image False example_provider example_body]
  by (simp add: example_image_def example_body_def example_provider_def starts_with_def
      js_or_def default_prompt_def)

text \<open>
  C9. The defaults of the submission route replace every optional field that is falsy,
  not only an absent one: with a valid \<^verbatim>\<open>imageData\<close>, a prompt or size that is the empty
  string and a duration or fps that is 0 are present in the request and still reach the
  provider as the default values.
\<close>

theorem submission_defaults_on_falsy:
  assumes "field body ''imageData'' = JStr img" and "starts_with img ''data:image/''"
    and "inst \<or> create p = None"
  shows "\<exists>ps. provider_calls (POST p inst (Inr body)) =
            (if inst then [] else [CreateClient]) @ [Generate ps] \<and>
     (field body ''prompt'' = JStr [] \<longrightarrow> prompt ps = JStr default_prompt) \<and>
     (field body ''duration'' = JNum 0 \<longrightarrow> duration ps = JNum 5) \<and>
     (field body ''fps'' = JNum 0 \<longrightarrow> fps ps = JNum 30) \<and>
     (field body ''size'' = JStr [] \<longrightarrow> size ps = JStr ''1024x1024'') \<and>
     (\<not> truthy (field body ''prompt'') \<longrightarrow> prompt ps = JStr default_prompt) \<and>
     (\<not> truthy (field body ''quality'') \<longrightarrow> quality ps = JStr ''speed'') \<and>
     (\<not> truthy (field body ''duration'') \<longrightarrow> duration ps = JNum 5) \<and>
     (\<not> truthy (field body ''fps'') \<longrightarrow> fps ps = JNum 30) \<and>
     (\<not> truthy (field body ''size'') \<longrightarrow> size ps = JStr ''1024x1024'')"
  using POST_valid [OF assms]
  by (simp add: js_or_def)

theorem submission_defaults_on_falsy_witness:
  "field example_body_falsy ''imageData'' = JStr example_image \<and>
   field example_body_falsy ''prompt'' = JStr [] \<and>
   field example_body_falsy ''duration'' = JNum 0 \<and>
   field example_body_falsy ''fps'' = JNum 0 \<and>
   field example_body_falsy ''size'' = JStr [] \<and>
   provider_calls (POST example_provider True (Inr example_body_falsy)) =
     [Generate \<lparr>image_url = JStr example_image,
         prompt = JStr ''Make this image come alive with smooth, loopable motion'',
         quality = JStr ''speed'', duration = JNum 5, fps = JNum 30,
         size = JStr ''1024x1024''\<rparr>]"
proof -
  have img: "field example_body_falsy ''imageData'' = JStr example_image"
    by (simp add: example_body_falsy_def)
  have pre: "starts_with example_image ''data:image/''"
    by (simp add: example_image_def starts_with_def)
  have inst: "True \<or> create example_provider = None"
    by simp
  from submission_defaults_on_falsy [OF img pre inst]
  obtain ps where
    calls: "provider_calls (POST example_provider True (Inr example_body_falsy)) = [Generate ps]"
    and p: "prompt ps = JStr default_prompt" and d: "duration ps = JNum 5"
    and f: "fps ps = JNum 30" and s: "size ps = JStr ''1024x1024''"
    and q: "quality ps = JStr ''speed''"
    by (auto simp: example_body_falsy_def)
  have "provider_calls (POST example_provider True (Inr example_body_falsy)) =
     [Generate \<lparr>image_url = JStr example_image,
         prompt = js_or (field example_body_falsy ''prompt'') (JStr default_prompt),
         quality = js_or (field example_body_falsy ''quality'') (JStr ''speed''),
         duration = js_or (field example_body_falsy ''duration'') (JNum 5),
         fps = js_or (field example_body_falsy ''fps'') (JNum 30),
         size = js_or (field example_body_falsy ''size'') (JStr ''1024x1024'')\<rparr>]"
    using POST_valid [OF img pre inst] by simp
  then show ?thesis
    using calls p d f s q
    by (simp add: example_body_falsy_def js_or_def default_prompt_def)
qed

lemma POST_rejected:
  assumes "\<not> nullish body"
    and "\<not> truthy (field body ''imageData'') \<or>
         (\<exists>s. field body ''imageData'' = JStr s \<and> \<not> starts_with s ''data:image/'')"
  shows "http_status (response (POST p inst (Inr body))) = 400 \<and>
     body_keys (http_body (response (POST p inst (Inr body)))) = [''error''] \<and>
     provider_calls (POST p inst (Inr body)) = [] \<and>
     zaiInstance (POST p inst (Inr body)) = inst"
  using assms
  by (auto simp: POST_def POST_try_def Let_def json_response_def)

lemma POST_calls_only_valid:
  assumes "provider_calls (POST p inst req) \<noteq> []"
  shows "\<exists>body s. req = Inr body \<and> field body ''imageData'' = JStr s \<and>
     starts_with s ''data:image/''"
  using assms
  by (auto simp: POST_def POST_try_def Let_def
      split: sum.splits if_splits jsval.splits prod.splits)

text \<open>
  C6. The claim holds where \<^verbatim>\<open>imageData\<close> is absent, falsy or a string (the two lemmas
  above) and fails where it is present, truthy and not a string: for the body
  \<^verbatim>\<open>{"imageData": 123}\<close> the call of \<^verbatim>\<open>startsWith\<close> throws inside the \<^verbatim>\<open>try\<close> block
  and the route answers 500 with the message of the TypeError, where a string without
  the prefix is answered 400. No provider call is made in either case.
\<close>

theorem submission_non_string_answers_500:
  "field (JObj [(''imageData'', JNum 123)]) ''imageData'' = JNum 123 \<and>
   response (POST example_provider False (Inr (JObj [(''imageData'', JNum 123)]))) =
     \<lparr>http_status = 500,
      http_body = JObj [(''error'', JStr ''imageData.startsWith is not a function'')]\<rparr> \<and>
   provider_calls (POST example_provider False (Inr (JObj [(''imageData'', JNum 123)]))) = [] \<and>
   response (POST example_provider False (Inr (JObj [(''imageData'', JStr ''hello'')]))) =
     \<lparr>http_status = 400,
      http_body = JObj [(''error'', JStr
        ''Invalid image data format. Must be a base64-encoded image with data URL format'')]\<rparr> \<and>
   provider_calls (POST example_provider False (Inr (JObj [(''imageData'', JStr ''hello'')]))) = []"
  by (simp add: POST_def POST_try_def Let_def error_response_def json_response_def starts_with_def)

lemma GET_rejected:
  assumes "tid = None \<or> tid = Some []"
  shows "http_status (response (GET p inst tid)) = 400 \<and>
     body_keys (http_body (response (GET p inst tid))) = [''error''] \<and>
     provider_calls (GET p inst tid) = [] \<and>
     zaiInstance (GET p inst tid) = inst"
  using assms
  by (auto simp: GET_def GET_try_def json_response_def)

lemma GET_calls:
  assumes "t \<noteq> []" and "inst \<or> create p = None"
  shows "provider_calls (GET p inst (Some t)) = (if inst then [] else [CreateClient]) @ [Query t]"
  using assms
  by (auto simp: GET_def GET_try_def getZAIInstance_available Let_def split: sum.splits)

lemma GET_at_most_one_query:
  "queries (provider_calls (GET p inst tid)) = [] \<or>
   (\<exists>t. tid = Some t \<and> t \<noteq> [] \<and> queries (provider_calls (GET p inst tid)) = [t])"
  by (auto simp: GET_def GET_try_def getZAIInstance_def Let_def
      split: option.splits sum.splits prod.splits)

text \<open>
  C7, as amended. A status request whose \<^verbatim>\<open>taskId\<close> parameter is absent or empty is
  answered 400 with a body that has just an \<^verbatim>\<open>error\<close>, and nothing is sent to the
  provider. With a non-empty \<^verbatim>\<open>taskId\<close> and a client handle (kept from before, or
  created now), exactly one query is made, for this task id. No invocation makes more
  than one query.
\<close>

theorem status_task_id_validation:
  "(tid = None \<or> tid = Some [] \<longrightarrow>
      http_status (response (GET p inst tid)) = 400 \<and>
      body_keys (http_body (response (GET p inst tid))) = [''error''] \<and>
      provider_calls (GET p inst tid) = []) \<and>
   (t \<noteq> [] \<and> (inst \<or> create p = None) \<longrightarrow>
      provider_calls (GET p inst (Some t)) = (if inst then [] else [CreateClient]) @ [Query t] \<and>
      queries (provider_calls (GET p inst (Some t))) = [t]) \<and>
   (queries (provider_calls (GET p inst tid)) = [] \<or>
    (\<exists>t'. tid = Some t' \<and> t' \<noteq> [] \<and> queries (provider_calls (GET p inst tid)) = [t']))"
proof -
  have a: "tid = None \<or> tid = Some [] \<longrightarrow>
      http_status (response (GET p inst tid)) = 400 \<and>
      body_keys (http_body (response (GET p inst tid))) = [''error''] \<and>
      provider_calls (GET p inst tid) = []"
    using GET_rejected [of tid p inst] by blast
  have b: "t \<noteq> [] \<and> (inst \<or> create p = None) \<longrightarrow>
      provider_calls (GET p inst (Some t)) = (if inst then [] else [CreateClient]) @ [Query t] \<and>
      queries (provider_calls (GET p inst (Some t))) = [t]"
    using GET_calls [of t inst p] by auto
  have c: "queries (provider_calls (GET p inst tid)) = [] \<or>
    (\<exists>t'. tid = Some t' \<and> t' \<noteq> [] \<and> queries (provider_calls (GET p inst tid)) = [t'])"
    by (rule GET_at_most_one_query)
  show ?thesis
    by (intro conjI; fact)
qed

theorem status_task_id_validation_witness:
  "http_status (response (GET example_provider False None)) = 400 \<and>
   body_keys (http_body (response (GET example_provider False None))) = [''error''] \<and>
   provider_calls (GET example_provider False None) = [] \<and>
   provider_calls (GET example_provider False (Some ''task-1'')) = [CreateClient, Query ''task-1''] \<and>
   queries (provider_calls (GET example_provider False (Some ''task-1''))) = [''task-1'']"
  using status_task_id_validation [of None example_provider False "''task-1''"]
  by (simp add: example_provider_def)

text \<open>
  The claim C7 as stated fails where the \<^verbatim>\<open>taskId\<close> parameter is present and empty
  (\<^verbatim>\<open>?taskId=\<close>): the answer is 400 and no query is made.
\<close>

theorem status_empty_task_id_counterexample:
  "queries (provider_calls (GET example_provider True (Some []))) = [] \<and>
   http_status (response (GET example_provider True (Some []))) = 400"
  by (simp add: GET_def GET_try_def json_response_def)

section \<open>Properties of the page\<close>

lemma progress_of_mono: "i \<le> j \<Longrightarrow> progress_of i \<le> progress_of j"
  by (simp add: progress_of_def maxPolls_def min_def)

lemma progress_of_bounds: "20 \<le> progress_of n \<and> progress_of n \<le> 90"
  by (simp add: progress_of_def maxPolls_def min_def)

lemma elapsedMinutes_200: "elapsedMinutes 200 = ''10.0''"
  by (simp add: elapsedMinutes_def toFixed1_def pollInterval_def digit_def)

lemma poll_unresolved_continue:
  assumes "unresolved f" and "n < 200"
  shows "snd (poll n f s) = ([], Schedule 3000 (Suc n)) \<and>
     progress (generateState (fst (poll n f s))) = progress_of n \<and>
     isUploading (generateState (fst (poll n f s))) = isUploading (generateState s) \<and>
     isGenerating (generateState (fst (poll n f s))) = isGenerating (generateState s) \<and>
     isPolling (generateState (fst (poll n f s))) = isPolling (generateState s) \<and>
     (fst (poll n f s))\<lparr>generateState := g\<rparr> = s\<lparr>generateState := g\<rparr>"
  using assms
  by (cases f)
     (auto simp: unresolved_def poll_def poll_try_def get_def Let_def maxPolls_def pollInterval_def
       split: if_splits)

lemma poll_unresolved_timeout:
  assumes "unresolved f" and "200 \<le> n"
  shows "poll n f s = (s\<lparr>generateState := idle\<rparr>, [generation_failed (Failure (Msg (timed_out n)))], Stop)"
  using assms
  by (cases f)
     (auto simp: unresolved_def poll_def poll_try_def get_def Let_def maxPolls_def
       split: if_splits)

lemma poll_continues_only_unresolved:
  assumes "snd (snd (poll n f s)) \<noteq> Stop"
  shows "unresolved f \<and> n < 200"
  using assms
  by (cases f)
     (auto simp: unresolved_def poll_def poll_try_def get_def Let_def maxPolls_def
       split: if_splits sum.splits)

lemma field_nullish: "nullish v \<Longrightarrow> field v k = JUndefined"
  by (cases v) auto

lemma poll_progress_100:
  "(progress (generateState (fst (poll n f s))) = 100) = succeeded f"
  using progress_of_bounds [of n]
  by (cases f)
     (auto simp: succeeded_def field_nullish poll_def poll_try_def get_def Let_def idle_def
       split: if_splits sum.splits)

lemma poll_keeps_task:
  "taskId (fst (poll n f s)) = taskId s \<and> uploadedImage (fst (poll n f s)) = uploadedImage s"
  by (cases f)
     (auto simp: poll_def poll_try_def get_def Let_def split: if_splits sum.splits)

lemma poll_result_independent:
  "snd (poll n f s) = snd (poll n f s')"
  by (cases f)
     (auto simp: poll_def poll_try_def get_def Let_def split: if_splits sum.splits)

lemma chain_pending:
  assumes "\<forall>f\<in>set fs. unresolved f" and "n + length fs \<le> 200"
  shows "map snd (poll_chain n fs s) = map (\<lambda>k. ([], Schedule 3000 (Suc k))) [n..<n + length fs]"
  using assms
proof (induction fs arbitrary: n s)
  case Nil
  then show ?case by simp
next
  case (Cons f fs)
  have u: "unresolved f" and n: "n < 200" using Cons.prems by auto
  obtain s1 where p: "poll n f s = (s1, [], Schedule 3000 (Suc n))"
    using poll_unresolved_continue [OF u n, of s] by (cases "poll n f s") auto
  have ih: "map snd (poll_chain (Suc n) fs s1) =
      map (\<lambda>k. ([], Schedule 3000 (Suc k))) [Suc n..<Suc n + length fs]"
    using Cons.prems by (intro Cons.IH) auto
  have upt: "[n..<n + length (f # fs)] = n # [Suc n..<Suc n + length fs]"
    by (simp add: upt_conv_Cons del: upt_Suc)
  show ?case
    unfolding upt using p ih by (simp del: upt_Suc)
qed

lemma chain_timeout:
  assumes "\<forall>f\<in>set fs. unresolved f" and "n \<le> 200" and "200 < n + length fs"
  shows "length (poll_chain n fs s) = 201 - n \<and>
     map snd (butlast (poll_chain n fs s)) = map (\<lambda>k. ([], Schedule 3000 (Suc k))) [n..<200] \<and>
     last (poll_chain n fs s) =
       (s\<lparr>generateState := idle\<rparr>, [generation_failed (Failure (Msg (timed_out 200)))], Stop)"
  using assms
proof (induction fs arbitrary: n s)
  case Nil
  then show ?case by simp
next
  case (Cons f fs)
  have u: "unresolved f" using Cons.prems by auto
  show ?case
  proof (cases "n = 200")
    case True
    then show ?thesis
      using poll_unresolved_timeout [OF u, of n s] by simp
  next
    case False
    then have n: "n < 200" using Cons.prems by simp
    obtain s1 where p: "poll n f s = (s1, [], Schedule 3000 (Suc n))"
      using poll_unresolved_continue [OF u n, of s] by (cases "poll n f s") auto
    have s1: "s1\<lparr>generateState := idle\<rparr> = s\<lparr>generateState := idle\<rparr>"
      using poll_unresolved_continue [OF u n, of s idle] p by simp
    have ih: "length (poll_chain (Suc n) fs s1) = 201 - Suc n \<and>
       map snd (butlast (poll_chain (Suc n) fs s1)) =
         map (\<lambda>k. ([], Schedule 3000 (Suc k))) [Suc n..<200] \<and>
       last (poll_chain (Suc n) fs s1) =
         (s1\<lparr>generateState := idle\<rparr>, [generation_failed (Failure (Msg (timed_out 200)))], Stop)"
      using Cons.prems n by (intro Cons.IH) auto
    then have ne: "poll_chain (Suc n) fs s1 \<noteq> []"
      using n by auto
    have upt: "[n..<200] = n # [Suc n..<200]"
      using n by (simp add: upt_conv_Cons del: upt_Suc)
    have len: "length (poll_chain n (f # fs) s) = 201 - n"
      using p ih n by simp
    have front: "map snd (butlast (poll_chain n (f # fs) s)) =
        map (\<lambda>k. ([], Schedule 3000 (Suc k))) [n..<200]"
      unfolding upt using p ih ne by (simp del: upt_Suc)
    have final: "last (poll_chain n (f # fs) s) =
        (s\<lparr>generateState := idle\<rparr>, [generation_failed (Failure (Msg (timed_out 200)))], Stop)"
      using p ih ne s1 by simp
    show ?thesis
      using len front final by blast
  qed
qed

lemma chain_progress:
  assumes "j < length (poll_chain n fs s)" and "snd (snd (poll_chain n fs s ! j)) \<noteq> Stop"
    and "i \<le> j"
  shows "progress (generateState (fst (poll_chain n fs s ! i))) = progress_of (n + i)"
  using assms
proof (induction fs arbitrary: n s i j)
  case Nil
  then show ?case by simp
next
  case (Cons f fs)
  show ?case
  proof (cases "snd (snd (poll n f s)) = Stop")
    case True
    then have "poll_chain n (f # fs) s = [poll n f s]"
      by (cases "poll n f s") auto
    then show ?thesis using Cons.prems True by simp
  next
    case False
    then have u: "unresolved f" and n: "n < 200"
      using poll_continues_only_unresolved by blast+
    obtain s1 where p: "poll n f s = (s1, [], Schedule 3000 (Suc n))"
      using poll_unresolved_continue [OF u n, of s] by (cases "poll n f s") auto
    have pr: "progress (generateState s1) = progress_of n"
      using poll_unresolved_continue [OF u n, of s] p by simp
    have chain: "poll_chain n (f # fs) s = (s1, [], Schedule 3000 (Suc n)) # poll_chain (Suc n) fs s1"
      using p by simp
    show ?thesis
    proof (cases i)
      case 0
      then show ?thesis using chain pr by simp
    next
      case (Suc i')
      then obtain j' where j: "j = Suc j'" using Cons.prems(3) by (cases j) auto
      have "progress (generateState (fst (poll_chain (Suc n) fs s1 ! i'))) = progress_of (Suc n + i')"
        using Cons.prems chain j Suc by (intro Cons.IH [of j']) auto
      then show ?thesis using chain Suc by simp
    qed
  qed
qed

lemma chain_100:
  assumes "i < length (poll_chain n fs s)"
  shows "(progress (generateState (fst (poll_chain n fs s ! i))) = 100) = succeeded (fs ! i)"
  using assms
proof (induction fs arbitrary: n s i)
  case Nil
  then show ?case by simp
next
  case (Cons f fs)
  obtain s1 ts nx where p: "poll n f s = (s1, ts, nx)"
    by (cases "poll n f s") auto
  have h: "(progress (generateState s1) = 100) = succeeded f"
    using poll_progress_100 [of n f s] p by simp
  show ?case
  proof (cases nx)
    case Stop
    then show ?thesis using Cons.prems p h by simp
  next
    case (Schedule d m)
    show ?thesis
    proof (cases i)
      case 0
      then show ?thesis using p Schedule h by simp
    next
      case (Suc i')
      then show ?thesis using Cons.prems p Schedule Cons.IH [of i' m s1] by simp
    qed
  qed
qed

lemma timed_out_200:
  "timed_out 200 = ''Video generation timed out after 10.0 minutes. Please try again or use ''
     @ [CHR 0x22] @ ''speed'' @ [CHR 0x22] @ '' mode for faster generation.''"
  by (simp add: timed_out_def elapsedMinutes_200)

text \<open>
  C3, as amended. When every answer to a poll is OK and neither SUCCESS with a video
  URL nor FAIL, the loop makes exactly 201 status queries: each of the first 200
  answers sets a timer of 3000 ms for the next query and shows nothing, and the 201st
  answer resets the generation state and shows the failure "Video generation timed
  out after 10.0 minutes. Please try again or use "speed" mode for faster generation."
  With 200 such answers or fewer the loop is still polling.
\<close>

theorem poll_ceiling:
  assumes "\<forall>f\<in>set fs. unresolved f"
  shows "(length fs \<le> 200 \<longrightarrow>
            map snd (pollForResults fs s) = map (\<lambda>k. ([], Schedule 3000 (Suc k))) [0..<length fs]) \<and>
         (200 < length fs \<longrightarrow>
            length (pollForResults fs s) = 201 \<and>
            map snd (butlast (pollForResults fs s)) =
              map (\<lambda>k. ([], Schedule 3000 (Suc k))) [0..<200] \<and>
            last (pollForResults fs s) =
              (s\<lparr>generateState := idle\<rparr>,
               [\<lparr>destructive = True, title = ''Generation failed'',
                 description = Msg (''Video generation timed out after 10.0 minutes. Please try again or use ''
                   @ [CHR 0x22] @ ''speed'' @ [CHR 0x22] @ '' mode for faster generation.'')\<rparr>],
               Stop))"
proof -
  have a: "length fs \<le> 200 \<longrightarrow>
      map snd (pollForResults fs s) = map (\<lambda>k. ([], Schedule 3000 (Suc k))) [0..<length fs]"
    using chain_pending [OF assms, of 0 s] by (simp add: pollForResults_def)
  have b: "200 < length fs \<longrightarrow>
      length (pollForResults fs s) = 201 \<and>
      map snd (butlast (pollForResults fs s)) =
        map (\<lambda>k. ([], Schedule 3000 (Suc k))) [0..<200] \<and>
      last (pollForResults fs s) =
        (s\<lparr>generateState := idle\<rparr>,
         [\<lparr>destructive = True, title = ''Generation failed'',
           description = Msg (''Video generation timed out after 10.0 minutes. Please try again or use ''
             @ [CHR 0x22] @ ''speed'' @ [CHR 0x22] @ '' mode for faster generation.'')\<rparr>],
         Stop)"
    using chain_timeout [OF assms, of 0 s]
    by (simp add: pollForResults_def generation_failed_def timed_out_200)
  show ?thesis
    using a b by blast
qed

lemma unresolved_example_processing: "unresolved example_processing"
  by (simp add: unresolved_def example_processing_def)

theorem poll_ceiling_witness:
  "unresolved example_processing \<and>
   length (pollForResults (replicate 201 example_processing) example_polling) = 201 \<and>
   last (pollForResults (replicate 201 example_processing) example_polling) =
     (example_polling\<lparr>generateState := idle\<rparr>,
      [\<lparr>destructive = True, title = ''Generation failed'',
        description = Msg (''Video generation timed out after 10.0 minutes. Please try again or use ''
          @ [CHR 0x22] @ ''speed'' @ [CHR 0x22] @ '' mode for faster generation.'')\<rparr>],
      Stop) \<and>
   map snd (pollForResults (replicate 2 example_processing) example_polling) =
     [([], Schedule 3000 1), ([], Schedule 3000 2)]"
proof -
  have h: "\<forall>f\<in>set (replicate n example_processing). unresolved f" for n
    using unresolved_example_processing by simp
  have two: "[0..<length (replicate 2 example_processing)] = [0, 1]"
    by (simp add: upt_conv_Cons)
  show ?thesis
    using poll_ceiling [OF h [of 201], of example_polling]
      poll_ceiling [OF h [of 2], of example_polling] unresolved_example_processing
    unfolding two by simp
qed

lemma chain_then:
  assumes "\<forall>f\<in>set fs. unresolved f" and "n + length fs \<le> 200"
  shows "\<exists>s'. poll_chain n (fs @ [f]) s = poll_chain n fs s @ [poll (n + length fs) f s']"
  using assms
proof (induction fs arbitrary: n s)
  case Nil
  show ?case
    by (rule exI [of _ s]) (auto split: prod.splits continuation.splits)
next
  case (Cons g fs)
  have u: "unresolved g" and n: "n < 200" using Cons.prems by auto
  obtain s1 where p: "poll n g s = (s1, [], Schedule 3000 (Suc n))"
    using poll_unresolved_continue [OF u n, of s] by (cases "poll n g s") auto
  obtain s' where "poll_chain (Suc n) (fs @ [f]) s1 =
      poll_chain (Suc n) fs s1 @ [poll (Suc n + length fs) f s']"
    using Cons.IH [of "Suc n" s1] Cons.prems by auto
  then show ?case
    using p by auto
qed

text \<open>
  The claim C3 as stated fails: after exactly 200 failed attempts the session has not
  timed out. A timer for a 201st query is set, nothing has been shown, and a 201st
  answer that is a success still ends the loop with the success.
\<close>

theorem poll_ceiling_counterexample:
  "length (pollForResults (replicate 200 example_processing) example_polling) = 200 \<and>
   snd (last (pollForResults (replicate 200 example_processing) example_polling)) =
     ([], Schedule 3000 200) \<and>
   snd (last (pollForResults (replicate 200 example_processing @ [example_success]) example_polling)) =
     ([\<lparr>destructive = False, title = ''Success!'',
        description = Msg ''Your animated video has been generated''\<rparr>], Stop)"
proof -
  let ?fs = "replicate 200 example_processing"
  have h: "\<forall>f\<in>set ?fs. unresolved f"
    using unresolved_example_processing by simp
  have m: "map snd (poll_chain 0 ?fs example_polling) =
      map (\<lambda>k. ([], Schedule 3000 (Suc k))) [0..<200]"
    using chain_pending [OF h, of 0 example_polling] by simp
  have len: "length (poll_chain 0 ?fs example_polling) = 200"
    using arg_cong [OF m, of length] by simp
  then have ne: "poll_chain 0 ?fs example_polling \<noteq> []"
    by auto
  have "snd (last (poll_chain 0 ?fs example_polling)) = last (map snd (poll_chain 0 ?fs example_polling))"
    using ne by (simp add: last_map)
  also have "\<dots> = last (map (\<lambda>k. ([], Schedule 3000 (Suc k))) [0..<200])"
    using m by simp
  also have "\<dots> = ([], Schedule 3000 200)"
    by (simp add: last_map)
  finally have lst: "snd (last (poll_chain 0 ?fs example_polling)) = ([], Schedule 3000 200)" .
  obtain s' where "poll_chain 0 (?fs @ [example_success]) example_polling =
      poll_chain 0 ?fs example_polling @ [poll (0 + length ?fs) example_success s']"
    using chain_then [OF h, of 0 example_success example_polling] by auto
  then have "snd (last (poll_chain 0 (?fs @ [example_success]) example_polling)) =
      snd (poll 200 example_success s')"
    by simp
  also have "\<dots> = ([\<lparr>destructive = False, title = ''Success!'',
        description = Msg ''Your animated video has been generated''\<rparr>], Stop)"
    by (simp add: poll_def poll_try_def get_def example_success_def)
  finally show ?thesis
    using len lst by (simp add: pollForResults_def)
qed

lemma poll_stop_progress:
  assumes "snd (snd (poll n f s)) = Stop" and "\<not> succeeded f"
  shows "progress (generateState (fst (poll n f s))) = 0"
  using assms
  by (cases f)
     (auto simp: succeeded_def poll_def poll_try_def get_def Let_def idle_def
       split: if_splits sum.splits)

lemma chain_stop:
  assumes "i < length (poll_chain n fs s)" and "snd (snd (poll_chain n fs s ! i)) = Stop"
    and "\<not> succeeded (fs ! i)"
  shows "progress (generateState (fst (poll_chain n fs s ! i))) = 0"
  using assms
proof (induction fs arbitrary: n s i)
  case Nil
  then show ?case by simp
next
  case (Cons f fs)
  obtain s1 ts nx where p: "poll n f s = (s1, ts, nx)"
    by (cases "poll n f s") auto
  show ?case
  proof (cases nx)
    case Stop
    then have i: "i = 0" using Cons.prems(1) p by simp
    have "progress (generateState (fst (poll n f s))) = 0"
      using Cons.prems(3) i p Stop by (intro poll_stop_progress) auto
    then show ?thesis using p Stop i by simp
  next
    case (Schedule d m)
    show ?thesis
    proof (cases i)
      case 0
      then show ?thesis using Cons.prems(2) p Schedule by simp
    next
      case (Suc i')
      then show ?thesis using Cons.prems p Schedule Cons.IH [of i' m s1] by simp
    qed
  qed
qed

text \<open>
  C4, as amended. The poll loop is entered with progress 20. Over the iterations of one
  run of the loop that leave it polling, the progress is at least 20, never decreases
  and never exceeds 90. An iteration leaves the progress at 100 exactly when its answer
  is OK with status SUCCESS and a video URL, which ends the loop. An iteration that ends
  the loop in any other way (FAIL, the ceiling, an answer that is not OK, a rejected
  request) resets the generation state and leaves the progress at 0.
\<close>

theorem progress_estimate:
  "(\<not> nullish data \<longrightarrow>
      isPolling (generateState (fst (generateVideo_response (Fetched True data) s0))) \<and>
      progress (generateState (fst (generateVideo_response (Fetched True data) s0))) = 20) \<and>
   (\<forall>i j. i \<le> j \<and> j < length (pollForResults fs s) \<and>
        snd (snd (pollForResults fs s ! j)) \<noteq> Stop \<longrightarrow>
      20 \<le> progress (generateState (fst (pollForResults fs s ! i))) \<and>
      progress (generateState (fst (pollForResults fs s ! i))) \<le>
        progress (generateState (fst (pollForResults fs s ! j))) \<and>
      progress (generateState (fst (pollForResults fs s ! j))) \<le> 90) \<and>
   (\<forall>i<length (pollForResults fs s).
      (progress (generateState (fst (pollForResults fs s ! i))) = 100) = succeeded (fs ! i)) \<and>
   (\<forall>i<length (pollForResults fs s).
      snd (snd (pollForResults fs s ! i)) = Stop \<and> \<not> succeeded (fs ! i) \<longrightarrow>
      progress (generateState (fst (pollForResults fs s ! i))) = 0)"
proof -
  have a: "\<not> nullish data \<longrightarrow>
      isPolling (generateState (fst (generateVideo_response (Fetched True data) s0))) \<and>
      progress (generateState (fst (generateVideo_response (Fetched True data) s0))) = 20"
    by (simp add: generateVideo_response_def get_def)
  have b: "\<forall>i j. i \<le> j \<and> j < length (pollForResults fs s) \<and>
        snd (snd (pollForResults fs s ! j)) \<noteq> Stop \<longrightarrow>
      20 \<le> progress (generateState (fst (pollForResults fs s ! i))) \<and>
      progress (generateState (fst (pollForResults fs s ! i))) \<le>
        progress (generateState (fst (pollForResults fs s ! j))) \<and>
      progress (generateState (fst (pollForResults fs s ! j))) \<le> 90"
  proof (intro allI impI)
    fix i j
    assume h: "i \<le> j \<and> j < length (pollForResults fs s) \<and>
        snd (snd (pollForResults fs s ! j)) \<noteq> Stop"
    then have j: "j < length (poll_chain 0 fs s)" and c: "snd (snd (poll_chain 0 fs s ! j)) \<noteq> Stop"
      and ij: "i \<le> j"
      by (simp_all add: pollForResults_def)
    have pi: "progress (generateState (fst (pollForResults fs s ! i))) = progress_of i"
      using chain_progress [OF j c ij] by (simp add: pollForResults_def)
    have pj: "progress (generateState (fst (pollForResults fs s ! j))) = progress_of j"
      using chain_progress [OF j c le_refl] by (simp add: pollForResults_def)
    show "20 \<le> progress (generateState (fst (pollForResults fs s ! i))) \<and>
      progress (generateState (fst (pollForResults fs s ! i))) \<le>
        progress (generateState (fst (pollForResults fs s ! j))) \<and>
      progress (generateState (fst (pollForResults fs s ! j))) \<le> 90"
      unfolding pi pj
      using progress_of_bounds [of i] progress_of_bounds [of j] progress_of_mono [OF ij] by simp
  qed
  have c: "\<forall>i<length (pollForResults fs s).
      (progress (generateState (fst (pollForResults fs s ! i))) = 100) = succeeded (fs ! i)"
    using chain_100 [of _ 0 fs s] by (simp add: pollForResults_def)
  have d: "\<forall>i<length (pollForResults fs s).
      snd (snd (pollForResults fs s ! i)) = Stop \<and> \<not> succeeded (fs ! i) \<longrightarrow>
      progress (generateState (fst (pollForResults fs s ! i))) = 0"
    using chain_stop [of _ 0 fs s] by (simp add: pollForResults_def)
  show ?thesis
    using a b c d by blast
qed

theorem progress_estimate_witness:
  "\<not> nullish example_created \<and>
   progress (generateState (fst (generateVideo_response (Fetched True example_created) example_polling))) = 20 \<and>
   1 < length (pollForResults example_answers example_polling) \<and>
   snd (snd (pollForResults example_answers example_polling ! 1)) \<noteq> Stop \<and>
   20 \<le> progress (generateState (fst (pollForResults example_answers example_polling ! 0))) \<and>
   progress (generateState (fst (pollForResults example_answers example_polling ! 0))) \<le>
     progress (generateState (fst (pollForResults example_answers example_polling ! 1))) \<and>
   progress (generateState (fst (pollForResults example_answers example_polling ! 1))) \<le> 90 \<and>
   progress (generateState (fst (pollForResults example_answers example_polling ! 2))) = 100 \<and>
   succeeded (example_answers ! 2) \<and>
   1 < length (pollForResults example_failing example_polling) \<and>
   snd (snd (pollForResults example_failing example_polling ! 1)) = Stop \<and>
   \<not> succeeded (example_failing ! 1) \<and>
   progress (generateState (fst (pollForResults example_failing example_polling ! 1))) = 0"
proof -
  have tr: "map snd (pollForResults example_answers example_polling) =
      [([], Schedule 3000 1), ([], Schedule 3000 2),
       ([\<lparr>destructive = False, title = ''Success!'',
          description = Msg ''Your animated video has been generated''\<rparr>], Stop)]"
    by (simp add: pollForResults_def example_answers_def example_processing_def example_success_def
        poll_def poll_try_def get_def maxPolls_def pollInterval_def)
  have len: "length (pollForResults example_answers example_polling) = 3"
    using arg_cong [OF tr, of length] by simp
  have c1: "snd (snd (pollForResults example_answers example_polling ! 1)) \<noteq> Stop"
    using arg_cong [OF tr, of "\<lambda>xs. snd (xs ! 1)"] len by simp
  have nn: "\<not> nullish example_created"
    by (simp add: example_created_def)
  have su: "succeeded (example_answers ! 2)"
    by (simp add: example_answers_def example_success_def succeeded_def)
  have trf: "map snd (pollForResults example_failing example_polling) =
      [([], Schedule 3000 1),
       ([generation_failed (Failure (Msg ''Video generation failed''))], Stop)]"
    by (simp add: pollForResults_def example_failing_def example_processing_def example_fail_def
        poll_def poll_try_def get_def maxPolls_def pollInterval_def)
  have lenf: "length (pollForResults example_failing example_polling) = 2"
    using arg_cong [OF trf, of length] by simp
  have stf: "snd (snd (pollForResults example_failing example_polling ! 1)) = Stop"
    using arg_cong [OF trf, of "\<lambda>xs. snd (xs ! 1)"] lenf by simp
  have nsf: "\<not> succeeded (example_failing ! 1)"
    by (simp add: example_failing_def example_fail_def succeeded_def)
  note pe = progress_estimate [of example_created example_polling example_answers example_polling]
  note pf = progress_estimate [of example_created example_polling example_failing example_polling]
  from pe nn have a: "progress (generateState (fst (generateVideo_response
      (Fetched True example_created) example_polling))) = 20"
    by blast
  from pe have b: "(0::nat) \<le> 1 \<and> 1 < length (pollForResults example_answers example_polling) \<and>
        snd (snd (pollForResults example_answers example_polling ! 1)) \<noteq> Stop \<longrightarrow>
      20 \<le> progress (generateState (fst (pollForResults example_answers example_polling ! 0))) \<and>
      progress (generateState (fst (pollForResults example_answers example_polling ! 0))) \<le>
        progress (generateState (fst (pollForResults example_answers example_polling ! 1))) \<and>
      progress (generateState (fst (pollForResults example_answers example_polling ! 1))) \<le> 90"
    by blast
  from pe len su have c: "progress (generateState (fst (pollForResults example_answers example_polling ! 2))) = 100"
    by simp
  from pf lenf stf nsf
  have d: "progress (generateState (fst (pollForResults example_failing example_polling ! 1))) = 0"
    by simp
  show ?thesis
    using nn a b c c1 len su lenf stf nsf d by simp
qed

text \<open>
  The claim C4 as stated fails: the progress does decrease over successive iterations.
  After a first answer PROCESSING it is 20, and after a second answer FAIL it is 0.
\<close>

theorem progress_estimate_counterexample:
  "progress (generateState (fst (pollForResults example_failing example_polling ! 0))) = 20 \<and>
   progress (generateState (fst (pollForResults example_failing example_polling ! 1))) = 0 \<and>
   snd (pollForResults example_failing example_polling ! 1) =
     ([\<lparr>destructive = True, title = ''Generation failed'',
        description = Msg ''Video generation failed''\<rparr>], Stop)"
  by (simp add: pollForResults_def example_failing_def example_processing_def example_fail_def
      example_polling_def poll_def poll_try_def get_def maxPolls_def pollInterval_def
      progress_of_def idle_def generation_failed_def)

lemma resetUpload_state:
  "resetUpload s =
     \<lparr>uploadedImage = None, generatedVideoUrl = JNull, taskId = JNull, generateState = idle\<rparr>"
  by (cases s) (simp add: resetUpload_def)

text \<open>
  C1, as amended. A reset clears the uploaded image, the video URL, the task id and the
  generation state, but it does not stop the poll loop. An answer for the earlier task
  that is handled after the reset shows the same toasts and sets the same timer as
  without the reset, and it leaves the task id and the uploaded image cleared. It does
  write the rest of the cleared state: a success sets the video URL to the one of the
  answer and the generation state to finished with progress 100; an answer that resolves
  nothing, below the ceiling, sets the progress and the status message of its
  iteration in the cleared generation state; an answer that ends the loop in any
  other way leaves the state as the reset left it.
\<close>

theorem late_response_after_reset:
  "resetUpload s =
     \<lparr>uploadedImage = None, generatedVideoUrl = JNull, taskId = JNull, generateState = idle\<rparr> \<and>
   taskId (fst (poll n f (resetUpload s))) = JNull \<and>
   uploadedImage (fst (poll n f (resetUpload s))) = None \<and>
   snd (poll n f (resetUpload s)) = snd (poll n f s) \<and>
   (succeeded (Fetched ok data) \<longrightarrow>
      fst (poll n (Fetched ok data) (resetUpload s)) =
        \<lparr>uploadedImage = None, generatedVideoUrl = field data ''videoUrl'', taskId = JNull,
         generateState = \<lparr>isUploading = False, isGenerating = False, isPolling = False,
           progress = 100, status = ''Video generated successfully!''\<rparr>\<rparr>) \<and>
   (unresolved (Fetched ok data) \<and> n < 200 \<longrightarrow>
      fst (poll n (Fetched ok data) (resetUpload s)) =
        \<lparr>uploadedImage = None, generatedVideoUrl = JNull, taskId = JNull,
         generateState = \<lparr>isUploading = False, isGenerating = False, isPolling = False,
           progress = progress_of n,
           status = (if field data ''status'' = JStr ''PROCESSING''
             then ''Generating your animated video... ('' @ elapsedMinutes n @ '' minutes elapsed)''
             else ''Almost done...'')\<rparr>\<rparr>) \<and>
   (snd (snd (poll n f (resetUpload s))) = Stop \<and> \<not> succeeded f \<longrightarrow>
      fst (poll n f (resetUpload s)) = resetUpload s)"
proof -
  have r: "resetUpload s =
     \<lparr>uploadedImage = None, generatedVideoUrl = JNull, taskId = JNull, generateState = idle\<rparr>"
    by (rule resetUpload_state)
  have a: "taskId (fst (poll n f (resetUpload s))) = JNull \<and>
      uploadedImage (fst (poll n f (resetUpload s))) = None"
    using poll_keeps_task [of n f "resetUpload s"] by (simp add: resetUpload_def)
  have b: "snd (poll n f (resetUpload s)) = snd (poll n f s)"
    by (rule poll_result_independent)
  have c: "succeeded (Fetched ok data) \<longrightarrow>
      fst (poll n (Fetched ok data) (resetUpload s)) =
        \<lparr>uploadedImage = None, generatedVideoUrl = field data ''videoUrl'', taskId = JNull,
         generateState = \<lparr>isUploading = False, isGenerating = False, isPolling = False,
           progress = 100, status = ''Video generated successfully!''\<rparr>\<rparr>"
    unfolding r
    by (auto simp: succeeded_def poll_def poll_try_def get_def field_nullish)
  have d: "unresolved (Fetched ok data) \<and> n < 200 \<longrightarrow>
      fst (poll n (Fetched ok data) (resetUpload s)) =
        \<lparr>uploadedImage = None, generatedVideoUrl = JNull, taskId = JNull,
         generateState = \<lparr>isUploading = False, isGenerating = False, isPolling = False,
           progress = progress_of n,
           status = (if field data ''status'' = JStr ''PROCESSING''
             then ''Generating your animated video... ('' @ elapsedMinutes n @ '' minutes elapsed)''
             else ''Almost done...'')\<rparr>\<rparr>"
    unfolding r
    by (auto simp: unresolved_def poll_def poll_try_def get_def Let_def maxPolls_def idle_def
        split: if_splits)
  have e: "snd (snd (poll n f (resetUpload s))) = Stop \<and> \<not> succeeded f \<longrightarrow>
      fst (poll n f (resetUpload s)) = resetUpload s"
    unfolding r
    by (cases f)
       (auto simp: succeeded_def poll_def poll_try_def get_def Let_def
         split: if_splits sum.splits)
  show ?thesis
    using r a b c d e by blast
qed

theorem late_response_after_reset_witness:
  "succeeded example_success \<and> unresolved example_processing \<and>
   snd (snd (poll 100 example_fail (resetUpload example_polling))) = Stop \<and>
   \<not> succeeded example_fail \<and>
   resetUpload example_polling =
     \<lparr>uploadedImage = None, generatedVideoUrl = JNull, taskId = JNull, generateState = idle\<rparr> \<and>
   fst (poll 100 example_success (resetUpload example_polling)) =
     \<lparr>uploadedImage = None, generatedVideoUrl = JStr ''https://cdn.example/a.mp4'', taskId = JNull,
      generateState = \<lparr>isUploading = False, isGenerating = False, isPolling = False,
        progress = 100, status = ''Video generated successfully!''\<rparr>\<rparr> \<and>
   fst (poll 100 example_processing (resetUpload example_polling)) =
     \<lparr>uploadedImage = None, generatedVideoUrl = JNull, taskId = JNull,
      generateState = \<lparr>isUploading = False, isGenerating = False, isPolling = False,
        progress = progress_of 100,
        status = ''Generating your animated video... ('' @ elapsedMinutes 100 @ '' minutes elapsed)''\<rparr>\<rparr> \<and>
   fst (poll 100 example_fail (resetUpload example_polling)) = resetUpload example_polling"
proof -
  have su: "succeeded (Fetched True (JObj [(''taskId'', JStr ''task-1''), (''status'', JStr ''SUCCESS''),
      (''videoUrl'', JStr ''https://cdn.example/a.mp4'')]))"
    by (simp add: succeeded_def)
  have un: "unresolved (Fetched True (JObj [(''taskId'', JStr ''task-1''), (''status'', JStr ''PROCESSING'')]))"
    by (simp add: unresolved_def)
  have lt: "(100::nat) < 200"
    by simp
  have st: "snd (snd (poll 100 example_fail (resetUpload example_polling))) = Stop"
    by (simp add: example_fail_def poll_def poll_try_def get_def)
  have nf: "\<not> succeeded example_fail"
    by (simp add: example_fail_def succeeded_def)
  note ok = late_response_after_reset [of example_polling 100 example_fail True
      "JObj [(''taskId'', JStr ''task-1''), (''status'', JStr ''SUCCESS''),
        (''videoUrl'', JStr ''https://cdn.example/a.mp4'')]"]
  note pr = late_response_after_reset [of example_polling 100 example_fail True
      "JObj [(''taskId'', JStr ''task-1''), (''status'', JStr ''PROCESSING'')]"]
  from ok have r: "resetUpload example_polling =
     \<lparr>uploadedImage = None, generatedVideoUrl = JNull, taskId = JNull, generateState = idle\<rparr>"
    by blast
  have es: "example_success = Fetched True (JObj [(''taskId'', JStr ''task-1''),
      (''status'', JStr ''SUCCESS''), (''videoUrl'', JStr ''https://cdn.example/a.mp4'')])"
    by (simp add: example_success_def)
  have ep: "example_processing = Fetched True (JObj [(''taskId'', JStr ''task-1''),
      (''status'', JStr ''PROCESSING'')])"
    by (simp add: example_processing_def)
  have url: "field (JObj [(''taskId'', JStr ''task-1''), (''status'', JStr ''SUCCESS''),
      (''videoUrl'', JStr ''https://cdn.example/a.mp4'')]) ''videoUrl'' =
      JStr ''https://cdn.example/a.mp4''"
    by simp
  have proc: "(if field (JObj [(''taskId'', JStr ''task-1''), (''status'', JStr ''PROCESSING'')])
        ''status'' = JStr ''PROCESSING''
      then ''Generating your animated video... ('' @ elapsedMinutes 100 @ '' minutes elapsed)''
      else ''Almost done...'') =
      ''Generating your animated video... ('' @ elapsedMinutes 100 @ '' minutes elapsed)''"
    by simp
  from ok su have a: "fst (poll 100 example_success (resetUpload example_polling)) =
     \<lparr>uploadedImage = None, generatedVideoUrl = JStr ''https://cdn.example/a.mp4'', taskId = JNull,
      generateState = \<lparr>isUploading = False, isGenerating = False, isPolling = False,
        progress = 100, status = ''Video generated successfully!''\<rparr>\<rparr>"
    unfolding es url by blast
  from pr un lt have b: "fst (poll 100 example_processing (resetUpload example_polling)) =
     \<lparr>uploadedImage = None, generatedVideoUrl = JNull, taskId = JNull,
      generateState = \<lparr>isUploading = False, isGenerating = False, isPolling = False,
        progress = progress_of 100,
        status = ''Generating your animated video... ('' @ elapsedMinutes 100 @ '' minutes elapsed)''\<rparr>\<rparr>"
    unfolding ep proc by blast
  from ok st nf have c: "fst (poll 100 example_fail (resetUpload example_polling)) =
      resetUpload example_polling"
    by blast
  have su': "succeeded example_success"
    using su by (simp add: example_success_def)
  show ?thesis
    using su' unresolved_example_processing st nf r a b c by blast
qed

text \<open>
  The claim C1 as stated fails: after a reset, a late success sets the video URL, the
  progress and the status message, and a late PROCESSING answer sets the progress and
  the status message and keeps the loop going.
\<close>

theorem late_response_after_reset_counterexample:
  "generatedVideoUrl (resetUpload example_polling) = JNull \<and>
   progress (generateState (resetUpload example_polling)) = 0 \<and>
   status (generateState (resetUpload example_polling)) = [] \<and>
   generatedVideoUrl (fst (poll 100 example_success (resetUpload example_polling))) =
     JStr ''https://cdn.example/a.mp4'' \<and>
   progress (generateState (fst (poll 100 example_success (resetUpload example_polling)))) = 100 \<and>
   status (generateState (fst (poll 100 example_success (resetUpload example_polling)))) =
     ''Video generated successfully!'' \<and>
   progress (generateState (fst (poll 100 example_processing (resetUpload example_polling)))) = 55 \<and>
   status (generateState (fst (poll 100 example_processing (resetUpload example_polling)))) =
     ''Generating your animated video... (5.0 minutes elapsed)'' \<and>
   snd (poll 100 example_processing (resetUpload example_polling)) = ([], Schedule 3000 101)"
  by (simp add: resetUpload_def example_polling_def example_success_def example_processing_def
      poll_def poll_try_def get_def idle_def maxPolls_def pollInterval_def progress_of_def
      elapsedMinutes_def toFixed1_def digit_def)

text \<open>
  C8. The claim holds for the file picker and fails for the drop zone: a dropped file
  whose type is not an image is ignored without any message, where the file picker
  shows "Invalid file type".
\<close>

theorem drop_of_non_image_is_silent:
  "handleDrop (Some example_pdf) s = (s, [], False) \<and>
   handleImageUpload (Some example_pdf) s = (s, [invalid_file_type], False)"
  by (simp add: handleDrop_def handleImageUpload_def example_pdf_def starts_with_def)

lemma upload_accepted:
  assumes "file_size fl \<le> 10 * 1024 * 1024" and "starts_with (file_type fl) ''image/''"
  shows "handleImageUpload (Some fl) s = (s, [], True) \<and> handleDrop (Some fl) s = (s, [], True) \<and>
     fst (onloadend r s) =
       \<lparr>uploadedImage = r, generatedVideoUrl = JNull, taskId = JNull, generateState = idle\<rparr>"
  using assms
  by (simp add: handleImageUpload_def handleDrop_def onloadend_def)

lemma upload_rejected:
  assumes "\<not> (file_size fl \<le> 10 * 1024 * 1024 \<and> starts_with (file_type fl) ''image/'')"
  shows "fst (handleImageUpload (Some fl) s) = s \<and> fst (handleDrop (Some fl) s) = s \<and>
     \<not> snd (snd (handleImageUpload (Some fl) s)) \<and> \<not> snd (snd (handleDrop (Some fl) s)) \<and>
     fst (snd (handleImageUpload (Some fl) s)) \<noteq> []"
  using assms
  by (auto simp: handleImageUpload_def handleDrop_def)

text \<open>
  C10. For a provider result with status SUCCESS in which none of the four URL fields
  is non-empty, the status route answers 200 with just the task id and the status
  SUCCESS, without a \<^verbatim>\<open>videoUrl\<close> key. The page treats this answer as not final:
  below the ceiling of 200 it only updates progress and status and sets the next
  timer; at the ceiling it times out.
\<close>

theorem success_without_url_is_not_terminal:
  assumes "t \<noteq> []" and "inst \<or> create p = None" and "result_query p t = Inr result"
    and "field result ''task_status'' = JStr ''SUCCESS''"
    and "\<not> truthy (wrapped_url result) \<and> \<not> truthy (field result ''video_url'') \<and>
         \<not> truthy (field result ''url'') \<and> \<not> truthy (field result ''video'')"
  shows "response (GET p inst (Some t)) =
       \<lparr>http_status = 200, http_body = JObj [(''taskId'', JStr t), (''status'', JStr ''SUCCESS'')]\<rparr> \<and>
     body_keys (http_body (response (GET p inst (Some t)))) = [''taskId'', ''status''] \<and>
     unresolved (fetch_of (response (GET p inst (Some t)))) \<and>
     \<not> succeeded (fetch_of (response (GET p inst (Some t)))) \<and>
     (n < 200 \<longrightarrow>
        poll n (fetch_of (response (GET p inst (Some t)))) s =
          (s\<lparr>generateState := (generateState s)\<lparr>progress := progress_of n, status := ''Almost done...''\<rparr>\<rparr>,
           [], Schedule 3000 (Suc n))) \<and>
     (200 \<le> n \<longrightarrow>
        poll n (fetch_of (response (GET p inst (Some t)))) s =
          (s\<lparr>generateState := idle\<rparr>, [generation_failed (Failure (Msg (timed_out n)))], Stop))"
proof -
  have none: "first_non_empty (url_candidates result) = None"
    using assms(5) by (simp add: first_non_empty_def url_candidates_def)
  have r: "response (GET p inst (Some t)) =
       \<lparr>http_status = 200, http_body = JObj [(''taskId'', JStr t), (''status'', JStr ''SUCCESS'')]\<rparr>"
    using GET_success_response [OF assms(1-4)] none by simp
  have f: "fetch_of (response (GET p inst (Some t))) =
      Fetched True (JObj [(''taskId'', JStr t), (''status'', JStr ''SUCCESS'')])"
    unfolding r by (simp add: fetch_of_def)
  have u: "unresolved (fetch_of (response (GET p inst (Some t))))"
    unfolding f by (simp add: unresolved_def)
  have ns: "\<not> succeeded (fetch_of (response (GET p inst (Some t))))"
    unfolding f by (simp add: succeeded_def)
  have a: "n < 200 \<longrightarrow>
        poll n (fetch_of (response (GET p inst (Some t)))) s =
          (s\<lparr>generateState := (generateState s)\<lparr>progress := progress_of n, status := ''Almost done...''\<rparr>\<rparr>,
           [], Schedule 3000 (Suc n))"
    unfolding f by (simp add: poll_def poll_try_def get_def maxPolls_def pollInterval_def)
  have b: "200 \<le> n \<longrightarrow>
        poll n (fetch_of (response (GET p inst (Some t)))) s =
          (s\<lparr>generateState := idle\<rparr>, [generation_failed (Failure (Msg (timed_out n)))], Stop)"
    using poll_unresolved_timeout [OF u, of n s] by simp
  show ?thesis
    using r u ns a b by simp
qed

theorem success_without_url_is_not_terminal_witness:
  "result_query example_provider ''task-2'' = Inr example_result_no_url \<and>
   field example_result_no_url ''task_status'' = JStr ''SUCCESS'' \<and>
   response (GET example_provider False (Some ''task-2'')) =
     \<lparr>http_status = 200, http_body = JObj [(''taskId'', JStr ''task-2''), (''status'', JStr ''SUCCESS'')]\<rparr> \<and>
   poll 7 (fetch_of (response (GET example_provider False (Some ''task-2'')))) example_polling =
     (example_polling\<lparr>generateState := (generateState example_polling)\<lparr>progress := progress_of 7,
        status := ''Almost done...''\<rparr>\<rparr>, [], Schedule 3000 8) \<and>
   poll 200 (fetch_of (response (GET example_provider False (Some ''task-2'')))) example_polling =
     (example_polling\<lparr>generateState := idle\<rparr>, [generation_failed (Failure (Msg (timed_out 200)))], Stop)"
proof -
  have q: "result_query example_provider ''task-2'' = Inr example_result_no_url"
    by (simp add: example_provider_def)
  have c: "False \<or> create example_provider = None"
    by (simp add: example_provider_def)
  have st: "field example_result_no_url ''task_status'' = JStr ''SUCCESS''"
    by (simp add: example_result_no_url_def)
  have no: "\<not> truthy (wrapped_url example_result_no_url) \<and>
      \<not> truthy (field example_result_no_url ''video_url'') \<and>
      \<not> truthy (field example_result_no_url ''url'') \<and>
      \<not> truthy (field example_result_no_url ''video'')"
    by (simp add: example_result_no_url_def wrapped_url_def opt_field_def)
  have ne: "''task-2'' \<noteq> []"
    by simp
  note at7 = success_without_url_is_not_terminal [OF ne c q st no, of 7 example_polling]
  note at200 = success_without_url_is_not_terminal [OF ne c q st no, of 200 example_polling]
  have lt: "(7::nat) < 200" and ge: "(200::nat) \<le> 200"
    by simp_all
  from at7 have r: "response (GET example_provider False (Some ''task-2'')) =
     \<lparr>http_status = 200, http_body = JObj [(''taskId'', JStr ''task-2''), (''status'', JStr ''SUCCESS'')]\<rparr>"
    by blast
  from at7 lt have p7: "poll 7 (fetch_of (response (GET example_provider False (Some ''task-2'')))) example_polling =
     (example_polling\<lparr>generateState := (generateState example_polling)\<lparr>progress := progress_of 7,
        status := ''Almost done...''\<rparr>\<rparr>, [], Schedule 3000 (Suc 7))"
    by blast
  from at200 ge have p200: "poll 200 (fetch_of (response (GET example_provider False (Some ''task-2'')))) example_polling =
     (example_polling\<lparr>generateState := idle\<rparr>, [generation_failed (Failure (Msg (timed_out 200)))], Stop)"
    by blast
  have eight: "Suc 7 = 8"
    by simp
  show ?thesis
    using q st r p7 p200 unfolding eight by blast
qed

end
